theory Spec2Isabelle
  imports Main "HOL-Library.Word" "HOL-Library.Monad_Syntax"
begin

section \<open>Strings and text files as the C++ library presents them\<close>

text \<open>
  A \<open>std::string\<close> is a list of bytes. \<open>line.find(s) != std::string::npos\<close> asks whether
  \<open>s\<close> occurs in \<open>line\<close>; \<open>find_str\<close> returns the first position of the occurrence and
  \<open>None\<close> for \<open>npos\<close>.
\<close>

fun starts_with :: "string \<Rightarrow> string \<Rightarrow> bool" where
  "starts_with _ [] = True"
| "starts_with [] (_ # _) = False"
| "starts_with (c # cs) (d # ds) = (c = d \<and> starts_with cs ds)"

fun find_str :: "string \<Rightarrow> string \<Rightarrow> nat option" where
  "find_str [] pat = (if pat = [] then Some 0 else None)"
| "find_str (c # cs) pat =
     (if starts_with (c # cs) pat then Some 0 else map_option Suc (find_str cs pat))"

abbreviation (input) npos :: "nat option" where
  "npos \<equiv> None"

definition newline :: char where
  "newline = CHR 0x0A"

text \<open>
  The file system is a partial map from paths to file contents. A \<open>std::ifstream\<close>
  constructed on a path is either open on the bytes of that file or not open; a stream
  that is not open is in a failed state and every extraction from it fails.
\<close>

type_synonym filesystem = "string \<rightharpoonup> string"

record ifstream =
  is_open :: bool
  unread :: string

definition ifstream_open :: "filesystem \<Rightarrow> string \<Rightarrow> ifstream" where
  "ifstream_open fs filePath =
     (case fs filePath of
        None \<Rightarrow> \<lparr>is_open = False, unread = []\<rparr>
      | Some bytes \<Rightarrow> \<lparr>is_open = True, unread = bytes\<rparr>)"

text \<open>
  \<open>std::getline(stream, line)\<close>: on a stream that is not open, or at end of file with
  nothing left to extract, the extraction fails and the \<open>while\<close> condition is false
  (\<open>None\<close>). Otherwise it extracts the bytes up to the next newline, discards that
  newline, and succeeds; a last line without a final newline is delivered too.
\<close>

definition getline :: "ifstream \<Rightarrow> (string \<times> ifstream) option" where
  "getline stream =
     (if \<not> is_open stream \<or> unread stream = [] then None
      else Some (takeWhile (\<lambda>c. c \<noteq> newline) (unread stream),
                 stream\<lparr>unread := drop 1 (dropWhile (\<lambda>c. c \<noteq> newline) (unread stream))\<rparr>))"

section \<open>ParseShader (\<^verbatim>\<open>ex02_DrawTwoRectangles.cpp\<close>)\<close>

record ShaderProgramSource =
  VertexSource :: string
  FragmentSource :: string

datatype ShaderType = NONE | VERTEX | FRAGMENT

text \<open>The enumerators' values: \<open>NONE = -1\<close>, \<open>VERTEX = 0\<close>, \<open>FRAGMENT = 1\<close>.\<close>

fun ShaderType_int :: "ShaderType \<Rightarrow> int" where
  "ShaderType_int NONE = -1"
| "ShaderType_int VERTEX = 0"
| "ShaderType_int FRAGMENT = 1"

text \<open>
  The state of the loop: the active stage \<open>type\<close> and the two string streams \<open>ss[2]\<close>,
  each held as the text written to it so far.
\<close>

type_synonym parse_state = "ShaderType \<times> string list"

text \<open>The body of the \<open>while\<close> loop, for one extracted line.\<close>

definition ParseShader_body :: "parse_state \<Rightarrow> string \<Rightarrow> parse_state" where
  "ParseShader_body st line =
     (case st of (type, ss) \<Rightarrow>
        if find_str line ''#shader'' \<noteq> npos then
          (if find_str line ''vertex'' \<noteq> npos then (VERTEX, ss)
           else if find_str line ''fragment'' \<noteq> npos then (FRAGMENT, ss)
           else (type, ss))
        else
          (if type \<noteq> NONE
           then (type, ss[nat (ShaderType_int type) :=
                          ss ! nat (ShaderType_int type) @ line @ [newline]])
           else (type, ss)))"

function ParseShader_loop :: "ifstream \<Rightarrow> parse_state \<Rightarrow> parse_state" where
  "ParseShader_loop stream st =
     (case getline stream of
        None \<Rightarrow> st
      | Some (line, stream') \<Rightarrow> ParseShader_loop stream' (ParseShader_body st line))"
  by pat_completeness auto

lemma drop_line_shorter:
  "xs \<noteq> [] \<Longrightarrow> length (dropWhile P xs) - Suc 0 < length xs"
proof -
  assume "xs \<noteq> []"
  then have "0 < length xs" by simp
  moreover have "length (dropWhile P xs) \<le> length xs"
    by (rule length_dropWhile_le)
  ultimately show ?thesis by linarith
qed

lemma getline_shorter:
  "getline stream = Some (line, stream') \<Longrightarrow> length (unread stream') < length (unread stream)"
  by (auto simp: getline_def drop_line_shorter split: if_splits)

termination ParseShader_loop
  by (relation "measure (\<lambda>(stream, st). length (unread stream))")
     (auto dest: getline_shorter)

text \<open>
  \<open>ParseShader\<close> returns the two buffers; the model returns with them the text the call
  wrote to \<open>std::cerr\<close> (\<open>std::endl\<close> writes a newline).
\<close>

definition ParseShader :: "filesystem \<Rightarrow> string \<Rightarrow> ShaderProgramSource \<times> string" where
  "ParseShader fs filePath =
     (let stream = ifstream_open fs filePath;
          cerr = (if \<not> is_open stream
                  then ''Failed to open shader file: '' @ filePath @ [newline]
                  else []);
          ss = snd (ParseShader_loop stream (NONE, [[], []]))
      in (\<lparr>VertexSource = ss ! 0, FragmentSource = ss ! 1\<rparr>, cerr))"

subsection \<open>Vocabulary of the claims about ParseShader\<close>

text \<open>
  The lines of a file are the strings that successive calls of \<open>std::getline\<close> deliver
  on a stream open on its bytes.
\<close>

function file_lines :: "string \<Rightarrow> string list" where
  "file_lines [] = []"
| "file_lines (c # cs) =
     takeWhile (\<lambda>c. c \<noteq> newline) (c # cs)
       # file_lines (drop 1 (dropWhile (\<lambda>c. c \<noteq> newline) (c # cs)))"
  by pat_completeness auto

lemma drop_line_shorter_Cons:
  "length (drop 1 (dropWhile P (c # cs))) < length (c # cs)"
proof -
  have "length (dropWhile P (c # cs)) - Suc 0 < length (c # cs)"
    by (rule drop_line_shorter) simp
  then show ?thesis
    by (simp only: length_drop One_nat_def)
qed

termination file_lines
proof (relation "measure length")
  show "wf (measure length)" by simp
next
  fix c :: char and cs :: string
  show "(drop 1 (dropWhile (\<lambda>c. c \<noteq> newline) (c # cs)), c # cs) \<in> measure length"
    by (simp only: in_measure drop_line_shorter_Cons)
qed

text \<open>
  A marker line contains the token \<open>#shader\<close>. A vertex-marker line names the stage
  \<open>vertex\<close> as well, a fragment-marker line names the stage \<open>fragment\<close>, and a bare
  marker line names neither.
\<close>

definition has_marker :: "string \<Rightarrow> bool" where
  "has_marker line = (find_str line ''#shader'' \<noteq> npos)"

definition vertex_marker :: "string \<Rightarrow> bool" where
  "vertex_marker line = (has_marker line \<and> find_str line ''vertex'' \<noteq> npos)"

definition fragment_marker :: "string \<Rightarrow> bool" where
  "fragment_marker line = (has_marker line \<and> find_str line ''fragment'' \<noteq> npos)"

definition bare_marker :: "string \<Rightarrow> bool" where
  "bare_marker line =
     (has_marker line \<and> find_str line ''vertex'' = npos \<and> find_str line ''fragment'' = npos)"

text \<open>
  The lines on which the loop sets the active stage to FRAGMENT. The loop tests
  \<open>vertex\<close> first, so these are the fragment-marker lines that do not contain
  \<open>vertex\<close>; every vertex-marker line sets the stage to VERTEX.
\<close>

definition selects_fragment :: "string \<Rightarrow> bool" where
  "selects_fragment line =
     (has_marker line \<and> find_str line ''vertex'' = npos \<and> find_str line ''fragment'' \<noteq> npos)"

text \<open>Lines joined by newlines: a newline between each line and the next.\<close>

fun newline_joined :: "string list \<Rightarrow> string" where
  "newline_joined [] = []"
| "newline_joined [l] = l"
| "newline_joined (l # l' # ls) = l @ [newline] @ newline_joined (l' # ls)"

text \<open>Lines as the loop writes them to a string stream: each line, then \<open>'\n'\<close>.\<close>

definition newline_terminated :: "string list \<Rightarrow> string" where
  "newline_terminated ls = concat (map (\<lambda>l. l @ [newline]) ls)"

section \<open>The OpenGL objects behind the shader wrapper\<close>

text \<open>
  The examples call OpenGL through GLAD. Those entry points are not code of the
  repository; what the claims need of them is modelled here, one definition per entry
  point, on a state \<open>world\<close> that holds the shader objects, the program objects, the
  program in use and, beside them, the text written to \<open>std::cerr\<close>. Shader and program
  objects share one space of names; a name is never zero.
\<close>

type_synonym GLuint = nat
type_synonym GLint = int

text \<open>A \<open>GLfloat\<close> is carried as its 32 bits; no function here computes with it.\<close>

type_synonym GLfloat = "32 word"

datatype GLenum =
  GL_VERTEX_SHADER | GL_FRAGMENT_SHADER
| GL_COMPILE_STATUS | GL_LINK_STATUS | GL_DELETE_STATUS

abbreviation (input) GL_FALSE :: GLint where
  "GL_FALSE \<equiv> 0"

abbreviation (input) GL_TRUE :: GLint where
  "GL_TRUE \<equiv> 1"

datatype uniform_value =
  U_float GLfloat
| U_vec3 GLfloat GLfloat GLfloat
| U_vec4 GLfloat GLfloat GLfloat GLfloat
| U_mat4 "GLfloat list"

fun same_kind :: "uniform_value \<Rightarrow> uniform_value \<Rightarrow> bool" where
  "same_kind (U_float _) (U_float _) = True"
| "same_kind (U_vec3 _ _ _) (U_vec3 _ _ _) = True"
| "same_kind (U_vec4 _ _ _ _) (U_vec4 _ _ _ _) = True"
| "same_kind (U_mat4 _) (U_mat4 _) = True"
| "same_kind _ _ = False"

record shader_object =
  shader_type :: GLenum
  shader_source :: string
  compile_status :: bool
  shader_info_log :: string
  delete_status :: bool

text \<open>
  The reflection data of a program is the list of its active uniforms with their
  current values; the location of a uniform is its position in the list.
\<close>

record program_object =
  attached_shaders :: "GLuint list"
  link_status :: bool
  program_info_log :: string
  active_uniforms :: "(string \<times> uniform_value) list"

record world =
  shader_objects :: "GLuint \<rightharpoonup> shader_object"
  program_objects :: "GLuint \<rightharpoonup> program_object"
  names_used :: nat
  current_program :: GLuint
  cerr :: string

text \<open>
  The GLSL compiler and linker belong to the graphics driver. They are a parameter of the
  model: \<open>glsl_compile\<close> gives, for a stage and a source text, whether the text compiles
  and the driver's information log; \<open>glsl_link\<close> gives, for the attached stage objects,
  whether they link, the log, and the active uniforms of the linked program.
\<close>

record glsl_driver =
  glsl_compile :: "GLenum \<Rightarrow> string \<Rightarrow> bool \<times> string"
  glsl_link :: "shader_object list \<Rightarrow> bool \<times> string \<times> (string \<times> uniform_value) list"

text \<open>
  A \<open>const char*\<close> handed to OpenGL or to \<open>operator<<\<close> is read up to its first zero
  byte: \<open>c_str\<close> of a \<open>std::string\<close>.
\<close>

definition c_str :: "string \<Rightarrow> string" where
  "c_str s = takeWhile (\<lambda>c. c \<noteq> CHR 0x00) s"

text \<open>
  Modelled from the spec: \<open>glCreateShader\<close> (OpenGL, absent from src/). The stage object
  is created with a fresh name, empty source, and is neither compiled nor deleted.
\<close>

definition glCreateShader :: "GLenum \<Rightarrow> world \<Rightarrow> GLuint \<times> world" where
  "glCreateShader shaderType w =
     (let name = Suc (names_used w)
      in (name,
          w\<lparr>shader_objects := (shader_objects w)(name \<mapsto>
                \<lparr>shader_type = shaderType, shader_source = [], compile_status = False,
                 shader_info_log = [], delete_status = False\<rparr>),
            names_used := name\<rparr>))"

text \<open>
  Modelled from the spec: \<open>glShaderSource\<close> with one zero-terminated string (OpenGL,
  absent from src/). It replaces the source text of the stage object; on a name that is
  not a shader object it changes nothing.
\<close>

definition glShaderSource :: "GLuint \<Rightarrow> string \<Rightarrow> world \<Rightarrow> world" where
  "glShaderSource shader src w =
     (case shader_objects w shader of
        None \<Rightarrow> w
      | Some so \<Rightarrow> w\<lparr>shader_objects := (shader_objects w)(shader \<mapsto>
                      so\<lparr>shader_source := src\<rparr>)\<rparr>)"

text \<open>
  Modelled from the spec: \<open>glCompileShader\<close> (OpenGL, absent from src/), the spec's
  "compile stage": failure is signalled by the status flag of the stage object, and the
  driver's log is stored with it; the object stays.
\<close>

definition glCompileShader :: "glsl_driver \<Rightarrow> GLuint \<Rightarrow> world \<Rightarrow> world" where
  "glCompileShader drv shader w =
     (case shader_objects w shader of
        None \<Rightarrow> w
      | Some so \<Rightarrow>
          (case glsl_compile drv (shader_type so) (shader_source so) of
             (ok, log) \<Rightarrow>
               w\<lparr>shader_objects := (shader_objects w)(shader \<mapsto>
                    so\<lparr>compile_status := ok, shader_info_log := log\<rparr>)\<rparr>))"

text \<open>
  Modelled from the spec: \<open>glGetShaderiv\<close> (OpenGL, absent from src/). It writes the
  queried flag through the pointer; on a name that is not a shader object it raises a GL
  error and writes nothing (\<open>None\<close>).
\<close>

definition glGetShaderiv :: "world \<Rightarrow> GLuint \<Rightarrow> GLenum \<Rightarrow> GLint option" where
  "glGetShaderiv w shader pname =
     (case shader_objects w shader of
        None \<Rightarrow> None
      | Some so \<Rightarrow>
          if pname = GL_COMPILE_STATUS
            then Some (if compile_status so then GL_TRUE else GL_FALSE)
          else if pname = GL_DELETE_STATUS
            then Some (if delete_status so then GL_TRUE else GL_FALSE)
          else None)"

text \<open>
  Modelled from the spec: \<open>glGetShaderInfoLog\<close> (OpenGL, absent from src/). It copies
  the log into a buffer of \<open>maxLength\<close> bytes, the last of them the terminating zero.
\<close>

definition glGetShaderInfoLog :: "world \<Rightarrow> GLuint \<Rightarrow> nat \<Rightarrow> string option" where
  "glGetShaderInfoLog w shader maxLength =
     (case shader_objects w shader of
        None \<Rightarrow> None
      | Some so \<Rightarrow> Some (take (maxLength - 1) (shader_info_log so)))"




text \<open>
  Modelled from the spec: \<open>glGetProgramiv\<close> (OpenGL, absent from src/), as
  \<open>glGetShaderiv\<close> for a program object.
\<close>

definition glGetProgramiv :: "world \<Rightarrow> GLuint \<Rightarrow> GLenum \<Rightarrow> GLint option" where
  "glGetProgramiv w program pname =
     (case program_objects w program of
        None \<Rightarrow> None
      | Some po \<Rightarrow>
          if pname = GL_LINK_STATUS
            then Some (if link_status po then GL_TRUE else GL_FALSE)
          else None)"

text \<open>
  Modelled from the spec: \<open>glGetProgramInfoLog\<close> (OpenGL, absent from src/), as
  \<open>glGetShaderInfoLog\<close> for a program object.
\<close>

definition glGetProgramInfoLog :: "world \<Rightarrow> GLuint \<Rightarrow> nat \<Rightarrow> string option" where
  "glGetProgramInfoLog w program maxLength =
     (case program_objects w program of
        None \<Rightarrow> None
      | Some po \<Rightarrow> Some (take (maxLength - 1) (program_info_log po)))"


text \<open>
  Modelled from the spec: \<open>glGetUniformLocation\<close> (OpenGL, absent from src/), the spec's
  lookup of a uniform by name in the reflection data of the linked program. A name that
  does not resolve, and a program that is not linked or does not exist, give the invalid
  location \<open>-1\<close>.
\<close>

fun uniform_index :: "string \<Rightarrow> (string \<times> uniform_value) list \<Rightarrow> nat option" where
  "uniform_index name [] = None"
| "uniform_index name ((n, v) # us) =
     (if n = name then Some 0 else map_option Suc (uniform_index name us))"

definition glGetUniformLocation :: "world \<Rightarrow> GLuint \<Rightarrow> string \<Rightarrow> GLint" where
  "glGetUniformLocation w program name =
     (case program_objects w program of
        None \<Rightarrow> -1
      | Some po \<Rightarrow>
          if \<not> link_status po then -1
          else (case uniform_index name (active_uniforms po) of
                  None \<Rightarrow> -1
                | Some i \<Rightarrow> int i))"

text \<open>
  Modelled from the spec: the \<open>glUniform*\<close> commands (OpenGL, absent from src/), the
  spec's write of a uniform value. They write to the program in use. A write to location
  \<open>-1\<close> is ignored; a write with no linked program in use, to a location the program
  does not have, or of a value of another kind than the uniform, is a GL error and
  changes nothing.
\<close>

definition write_uniform :: "GLint \<Rightarrow> uniform_value \<Rightarrow> world \<Rightarrow> world" where
  "write_uniform location v w =
     (if location = -1 then w
      else (case program_objects w (current_program w) of
              None \<Rightarrow> w
            | Some po \<Rightarrow>
                if link_status po \<and> 0 \<le> location
                   \<and> nat location < length (active_uniforms po)
                   \<and> same_kind (snd (active_uniforms po ! nat location)) v
                then w\<lparr>program_objects := (program_objects w)(current_program w \<mapsto>
                         po\<lparr>active_uniforms := (active_uniforms po)
                              [nat location :=
                                 (fst (active_uniforms po ! nat location), v)]\<rparr>)\<rparr>
                else w))"

definition glUniform1f :: "GLint \<Rightarrow> GLfloat \<Rightarrow> world \<Rightarrow> world" where
  "glUniform1f location v0 w = write_uniform location (U_float v0) w"

definition glUniform4f ::
  "GLint \<Rightarrow> GLfloat \<Rightarrow> GLfloat \<Rightarrow> GLfloat \<Rightarrow> GLfloat \<Rightarrow> world \<Rightarrow> world" where
  "glUniform4f location v0 v1 v2 v3 w = write_uniform location (U_vec4 v0 v1 v2 v3) w"

fun glUniform3fv :: "GLint \<Rightarrow> nat \<Rightarrow> GLfloat list \<Rightarrow> world \<Rightarrow> world" where
  "glUniform3fv location count (v0 # v1 # v2 # _) w =
     (if count = 1 then write_uniform location (U_vec3 v0 v1 v2) w else w)"
| "glUniform3fv location count _ w = w"

definition glUniformMatrix4fv ::
  "GLint \<Rightarrow> nat \<Rightarrow> bool \<Rightarrow> GLfloat list \<Rightarrow> world \<Rightarrow> world" where
  "glUniformMatrix4fv location count transposed val w =
     (if count = 1 \<and> 16 \<le> length val
      then write_uniform location
             (U_mat4 (if transposed
                      then map (\<lambda>i. val ! ((i mod 4) * 4 + i div 4)) [0..<16]
                      else take 16 val)) w
      else w)"

section \<open>CompileShader (\<^verbatim>\<open>ex02_DrawTwoRectangles.cpp\<close>)\<close>

text \<open>
  The local \<open>success\<close> is not initialised. A status query that writes nothing would
  leave the test on it without a defined value; the model returns \<open>None\<close> there, and
  \<open>Some\<close> of the returned name and the new state wherever the function returns.
\<close>

definition CompileShader ::
  "glsl_driver \<Rightarrow> string \<Rightarrow> GLenum \<Rightarrow> world \<Rightarrow> (GLuint \<times> world) option" where
  "CompileShader drv shaderSource shaderType w =
     (case glCreateShader shaderType w of
        (shader, w1) \<Rightarrow>
          let w2 = glShaderSource shader (c_str shaderSource) w1;
              w3 = glCompileShader drv shader w2
          in (case glGetShaderiv w3 shader GL_COMPILE_STATUS of
                None \<Rightarrow> None
              | Some success \<Rightarrow>
                  if success = GL_FALSE then
                    (case glGetShaderInfoLog w3 shader 512 of
                       None \<Rightarrow> None
                     | Some infoLog \<Rightarrow>
                         Some (shader,
                               w3\<lparr>cerr := cerr w3 @ ''Shader error:'' @ [newline]
                                             @ c_str infoLog @ [newline]\<rparr>))
                  else Some (shader, w3)))"

section \<open>The Shader class (\<^verbatim>\<open>ex03_Shaders/shader.cpp\<close>)\<close>

record Shader =
  ID :: GLuint

datatype vec3 = vec3 GLfloat GLfloat GLfloat

datatype vec4 = vec4 GLfloat GLfloat GLfloat GLfloat

datatype mat4 = mat4 vec4 vec4 vec4 vec4

text \<open>\<open>glm::value_ptr\<close>: the components in memory order, a matrix column by column.\<close>

fun value_ptr_vec3 :: "vec3 \<Rightarrow> GLfloat list" where
  "value_ptr_vec3 (vec3 x y z) = [x, y, z]"

fun value_ptr_vec4 :: "vec4 \<Rightarrow> GLfloat list" where
  "value_ptr_vec4 (vec4 x y z w) = [x, y, z, w]"

fun value_ptr_mat4 :: "mat4 \<Rightarrow> GLfloat list" where
  "value_ptr_mat4 (mat4 c0 c1 c2 c3) =
     value_ptr_vec4 c0 @ value_ptr_vec4 c1 @ value_ptr_vec4 c2 @ value_ptr_vec4 c3"

text \<open>
  \<open>checkCompileErrors\<close> tests a local \<open>success\<close> that it does not initialise either:
  \<open>None\<close> is again the run in which the status query wrote nothing.
\<close>

definition checkCompileErrors :: "GLuint \<Rightarrow> string \<Rightarrow> world \<Rightarrow> world option" where
  "checkCompileErrors shader type w =
     (if type \<noteq> ''PROGRAM'' then
        (case glGetShaderiv w shader GL_COMPILE_STATUS of
           None \<Rightarrow> None
         | Some success \<Rightarrow>
             if success = GL_FALSE then
               (case glGetShaderInfoLog w shader 1024 of
                  None \<Rightarrow> None
                | Some log \<Rightarrow>
                    Some (w\<lparr>cerr := cerr w @ ''SHADER COMPILE ERROR ['' @ type @ '']:''
                                      @ [newline] @ c_str log @ [newline]\<rparr>))
             else Some w)
      else
        (case glGetProgramiv w shader GL_LINK_STATUS of
           None \<Rightarrow> None
         | Some success \<Rightarrow>
             if success = GL_FALSE then
               (case glGetProgramInfoLog w shader 1024 of
                  None \<Rightarrow> None
                | Some log \<Rightarrow>
                    Some (w\<lparr>cerr := cerr w @ ''PROGRAM LINK ERROR:''
                                      @ [newline] @ c_str log @ [newline]\<rparr>))
             else Some w))"


definition setFloat :: "Shader \<Rightarrow> string \<Rightarrow> GLfloat \<Rightarrow> world \<Rightarrow> world" where
  "setFloat sh name val w =
     glUniform1f (glGetUniformLocation w (ID sh) (c_str name)) val w"

definition setVec3 :: "Shader \<Rightarrow> string \<Rightarrow> vec3 \<Rightarrow> world \<Rightarrow> world" where
  "setVec3 sh name v w =
     glUniform3fv (glGetUniformLocation w (ID sh) (c_str name)) 1 (value_ptr_vec3 v) w"

definition setMat4 :: "Shader \<Rightarrow> string \<Rightarrow> mat4 \<Rightarrow> world \<Rightarrow> world" where
  "setMat4 sh name m w =
     glUniformMatrix4fv (glGetUniformLocation w (ID sh) (c_str name)) 1 False
       (value_ptr_mat4 m) w"

fun setVec4 :: "Shader \<Rightarrow> string \<Rightarrow> vec4 \<Rightarrow> world \<Rightarrow> world" where
  "setVec4 sh name (vec4 x y z t) w =
     glUniform4f (glGetUniformLocation w (ID sh) (c_str name)) x y z t w"

section \<open>Start-up of main (\<^verbatim>\<open>ex03_Shaders/main.cpp\<close>, \<^verbatim>\<open>HelloWorld_GL.cpp\<close>)\<close>

text \<open>
  What GLFW and GLAD answer is given by the platform. A run of \<open>main\<close> is recorded as the
  text written to \<open>std::cerr\<close>, the library calls made, and how the start-up ended:
  \<open>Returned r\<close> when \<open>main\<close> returned \<open>r\<close> from one of its three checks, and
  \<open>Started\<close> when all three passed and \<open>main\<close> went on to set up its buffers and run the
  render loop, which is not followed here.
\<close>

record platform =
  glfwInit_ok :: bool
  glfwCreateWindow_ok :: bool
  gladLoadGLLoader_ok :: bool

datatype lib_call =
  glfwInit | glfwWindowHint | glfwCreateWindow string | glfwTerminate
| glfwMakeContextCurrent | glfwSetFramebufferSizeCallback | gladLoadGLLoader

datatype startup = Returned int | Started

record main_run =
  main_cerr :: string
  lib_calls :: "lib_call list"
  ended :: startup

text \<open>The exit status a POSIX parent reads: the low eight bits of the returned value.\<close>

definition exit_status :: "int \<Rightarrow> int" where
  "exit_status r = r mod 256"

definition main_ex03_Shaders :: "platform \<Rightarrow> main_run" where
  "main_ex03_Shaders p =
     (if \<not> glfwInit_ok p then
        \<lparr>main_cerr = ''Failed to initialize GLFW'' @ [newline],
         lib_calls = [glfwInit],
         ended = Returned (-1)\<rparr>
      else if \<not> glfwCreateWindow_ok p then
        \<lparr>main_cerr = ''Failed to create GLFW window'' @ [newline],
         lib_calls = [glfwInit, glfwWindowHint, glfwWindowHint, glfwWindowHint,
                      glfwCreateWindow ''Shaders in OpenGL'', glfwTerminate],
         ended = Returned (-1)\<rparr>
      else if \<not> gladLoadGLLoader_ok p then
        \<lparr>main_cerr = ''Failed to initialize GLAD'' @ [newline],
         lib_calls = [glfwInit, glfwWindowHint, glfwWindowHint, glfwWindowHint,
                      glfwCreateWindow ''Shaders in OpenGL'', glfwMakeContextCurrent,
                      gladLoadGLLoader],
         ended = Returned (-1)\<rparr>
      else
        \<lparr>main_cerr = [],
         lib_calls = [glfwInit, glfwWindowHint, glfwWindowHint, glfwWindowHint,
                      glfwCreateWindow ''Shaders in OpenGL'', glfwMakeContextCurrent,
                      gladLoadGLLoader],
         ended = Started\<rparr>)"

definition main_HelloWorld_GL :: "platform \<Rightarrow> main_run" where
  "main_HelloWorld_GL p =
     (if \<not> glfwInit_ok p then
        \<lparr>main_cerr = ''Failed to initialize GLFW'' @ [newline],
         lib_calls = [glfwInit],
         ended = Returned (-1)\<rparr>
      else if \<not> glfwCreateWindow_ok p then
        \<lparr>main_cerr = ''Failed to create GLFW window'' @ [newline],
         lib_calls = [glfwInit, glfwWindowHint, glfwWindowHint, glfwWindowHint,
                      glfwCreateWindow ''Hello OpenGL'', glfwTerminate],
         ended = Returned (-1)\<rparr>
      else if \<not> gladLoadGLLoader_ok p then
        \<lparr>main_cerr = ''Failed to initialize GLAD'' @ [newline],
         lib_calls = [glfwInit, glfwWindowHint, glfwWindowHint, glfwWindowHint,
                      glfwCreateWindow ''Hello OpenGL'', glfwMakeContextCurrent,
                      glfwSetFramebufferSizeCallback, gladLoadGLLoader],
         ended = Returned (-1)\<rparr>
      else
        \<lparr>main_cerr = [],
         lib_calls = [glfwInit, glfwWindowHint, glfwWindowHint, glfwWindowHint,
                      glfwCreateWindow ''Hello OpenGL'', glfwMakeContextCurrent,
                      glfwSetFramebufferSizeCallback, gladLoadGLLoader],
         ended = Started\<rparr>)"

section \<open>Reading a state; example states\<close>

text \<open>The stage of the shader object that a name denotes, if it denotes one.\<close>

definition stage_kind :: "world \<Rightarrow> GLuint \<Rightarrow> GLenum option" where
  "stage_kind w s = map_option shader_type (shader_objects w s)"


text \<open>
  A small driver for concrete runs: it compiles a source that contains \<open>void main\<close>
  and rejects every other text with a one-line log; it links stage objects that all
  compiled, and the linked program has the one uniform \<open>uColor\<close>.
\<close>

definition example_driver :: glsl_driver where
  "example_driver =
     \<lparr>glsl_compile = (\<lambda>k src.
         if find_str src ''void main'' \<noteq> npos then (True, [])
         else (False, ''ERROR: 0:1: syntax error'')),
      glsl_link = (\<lambda>stages.
         if list_all compile_status stages
         then (True, [], [(''uColor'', U_vec4 0 0 0 0)])
         else (False, ''ERROR: a stage did not compile'', []))\<rparr>"

definition empty_world :: world where
  "empty_world =
     \<lparr>shader_objects = Map.empty, program_objects = Map.empty, names_used = 0,
      current_program = 0, cerr = []\<rparr>"

text \<open>A state with one linked program, named 3 and in use, whose only uniform is \<open>uColor\<close>.\<close>

definition linked_world :: world where
  "linked_world =
     \<lparr>shader_objects = Map.empty,
      program_objects = [3 \<mapsto>
        \<lparr>attached_shaders = [1, 2], link_status = True, program_info_log = [],
         active_uniforms = [(''uColor'', U_vec4 0 0 0 0)]\<rparr>],
      names_used = 3, current_program = 3, cerr = []\<rparr>"

text \<open>A state with one fragment stage object, named 1, that has a source and is not compiled.\<close>

definition stage_world :: world where
  "stage_world =
     \<lparr>shader_objects = [1 \<mapsto>
        \<lparr>shader_type = GL_FRAGMENT_SHADER, shader_source = ''int x = ;'',
         compile_status = False, shader_info_log = [], delete_status = False\<rparr>],
      program_objects = Map.empty, names_used = 1, current_program = 0, cerr = []\<rparr>"


section \<open>Properties of ParseShader\<close>

declare ParseShader_loop.simps [simp del]

lemma ParseShader_loop_not_open:
  "\<not> is_open stream \<Longrightarrow> ParseShader_loop stream st = st"
  by (subst ParseShader_loop.simps) (simp add: getline_def)

lemma ParseShader_loop_lines:
  "is_open stream \<Longrightarrow>
   ParseShader_loop stream st = foldl ParseShader_body st (file_lines (unread stream))"
proof (induction stream st rule: ParseShader_loop.induct)
  case (1 stream st)
  show ?case
  proof (cases "unread stream")
    case Nil
    with "1.prems" show ?thesis
      by (subst ParseShader_loop.simps) (simp add: getline_def)
  next
    case (Cons c cs)
    let ?line = "takeWhile (\<lambda>c. c \<noteq> newline) (c # cs)"
    let ?rest = "stream\<lparr>unread := drop 1 (dropWhile (\<lambda>c. c \<noteq> newline) (c # cs))\<rparr>"
    have g: "getline stream = Some (?line, ?rest)"
      using "1.prems" Cons by (simp add: getline_def)
    have "ParseShader_loop stream st = ParseShader_loop ?rest (ParseShader_body st ?line)"
      by (subst ParseShader_loop.simps) (simp add: g)
    also have "\<dots> = foldl ParseShader_body (ParseShader_body st ?line)
                       (file_lines (unread ?rest))"
      using "1.IH" [OF g refl] "1.prems" by simp
    finally show ?thesis
      using Cons by simp
  qed
qed

lemma ParseShader_open:
  "fs filePath = Some bytes \<Longrightarrow>
   ParseShader fs filePath =
     (\<lparr>VertexSource = snd (foldl ParseShader_body (NONE, [[], []]) (file_lines bytes)) ! 0,
       FragmentSource = snd (foldl ParseShader_body (NONE, [[], []]) (file_lines bytes)) ! 1\<rparr>,
      [])"
  by (simp add: ParseShader_def ifstream_open_def ParseShader_loop_lines Let_def)

lemma body_vertex_marker:
  "vertex_marker l \<Longrightarrow> ParseShader_body (t, ss) l = (VERTEX, ss)"
  by (simp add: ParseShader_body_def vertex_marker_def has_marker_def)

lemma body_selects_fragment:
  "selects_fragment l \<Longrightarrow> ParseShader_body (t, ss) l = (FRAGMENT, ss)"
  by (simp add: ParseShader_body_def selects_fragment_def has_marker_def)

lemma body_bare_marker:
  "bare_marker l \<Longrightarrow> ParseShader_body (t, ss) l = (t, ss)"
  by (simp add: ParseShader_body_def bare_marker_def has_marker_def)

lemma body_text_NONE:
  "\<not> has_marker l \<Longrightarrow> ParseShader_body (NONE, ss) l = (NONE, ss)"
  by (simp add: ParseShader_body_def has_marker_def)

lemma body_text_VERTEX:
  "\<not> has_marker l \<Longrightarrow> ParseShader_body (VERTEX, [a, b]) l = (VERTEX, [a @ l @ [newline], b])"
  by (simp add: ParseShader_body_def has_marker_def)

lemma body_text_FRAGMENT:
  "\<not> has_marker l \<Longrightarrow>
   ParseShader_body (FRAGMENT, [a, b]) l = (FRAGMENT, [a, b @ l @ [newline]])"
  by (simp add: ParseShader_body_def has_marker_def)

text \<open>
  The stage names are tested in order: a marker line that contains both names selects
  the vertex stage, also when the fragment stage is active.
\<close>

lemma marker_line_with_both_names:
  "ParseShader_body (FRAGMENT, ss) ''#shader fragment vertex'' = (VERTEX, ss)"
  by (simp add: ParseShader_body_def)

lemma run_text_NONE:
  "list_all (\<lambda>l. \<not> has_marker l) ls \<Longrightarrow>
   foldl ParseShader_body (NONE, ss) ls = (NONE, ss)"
  by (induction ls) (simp_all add: body_text_NONE)

lemma run_text_VERTEX:
  "list_all (\<lambda>l. \<not> has_marker l) ls \<Longrightarrow>
   foldl ParseShader_body (VERTEX, [a, b]) ls = (VERTEX, [a @ newline_terminated ls, b])"
  by (induction ls arbitrary: a) (simp_all add: body_text_VERTEX newline_terminated_def)

lemma run_text_FRAGMENT:
  "list_all (\<lambda>l. \<not> has_marker l) ls \<Longrightarrow>
   foldl ParseShader_body (FRAGMENT, [a, b]) ls = (FRAGMENT, [a, b @ newline_terminated ls])"
  by (induction ls arbitrary: b) (simp_all add: body_text_FRAGMENT newline_terminated_def)





lemma run_skips_bare_marker:
  "bare_marker l \<Longrightarrow>
   foldl ParseShader_body st (pre @ l # post) = foldl ParseShader_body st (pre @ post)"
  by (cases "foldl ParseShader_body st pre") (simp add: body_bare_marker)

lemma run_skips_leading_text:
  "list_all (\<lambda>l. \<not> has_marker l) pre \<Longrightarrow>
   foldl ParseShader_body (NONE, ss) (pre @ rest) = foldl ParseShader_body (NONE, ss) rest"
  by (simp add: run_text_NONE)

text \<open>
  Claim C1, as amended. A file whose lines are a vertex-marker line, then N lines without
  the marker token, then a fragment-marker line that does not contain \<open>vertex\<close>, then M
  lines without the marker token: ParseShader returns as VertexSource exactly the N
  lines, in order, each followed by a newline (the last one too), and as FragmentSource
  exactly the M lines, in order, each followed by a newline.
\<close>

theorem ParseShader_two_sections:
  assumes "fs filePath = Some bytes"
    and "file_lines bytes = v # ns @ f # ms"
    and "vertex_marker v"
    and "list_all (\<lambda>l. \<not> has_marker l) ns"
    and "fragment_marker f"
    and "find_str f ''vertex'' = npos"
    and "list_all (\<lambda>l. \<not> has_marker l) ms"
  shows "fst (ParseShader fs filePath) =
           \<lparr>VertexSource = newline_terminated ns, FragmentSource = newline_terminated ms\<rparr>"
proof -
  have sf: "selects_fragment f"
    using assms(5,6) by (simp add: selects_fragment_def fragment_marker_def)
  have "foldl ParseShader_body (NONE, [[], []]) (v # ns @ f # ms) =
        foldl ParseShader_body (foldl ParseShader_body (VERTEX, [[], []]) ns) (f # ms)"
    using assms(3) by (simp add: body_vertex_marker)
  also have "\<dots> = foldl ParseShader_body (VERTEX, [newline_terminated ns, []]) (f # ms)"
    using assms(4) by (simp add: run_text_VERTEX)
  also have "\<dots> = foldl ParseShader_body (FRAGMENT, [newline_terminated ns, []]) ms"
    using sf by (simp add: body_selects_fragment)
  also have "\<dots> = (FRAGMENT, [newline_terminated ns, newline_terminated ms])"
    using assms(7) by (simp add: run_text_FRAGMENT)
  finally show ?thesis
    using assms(1,2) by (simp add: ParseShader_open)
qed

theorem ParseShader_two_sections_witness:
  "[''Basic.shader'' \<mapsto>
      ''#shader vertex'' @ [newline] @ ''in vec3 p;'' @ [newline] @ ''void main() {}''
        @ [newline] @ ''#shader fragment'' @ [newline] @ ''out vec4 c;'']
     ''Basic.shader''
   = Some (''#shader vertex'' @ [newline] @ ''in vec3 p;'' @ [newline] @ ''void main() {}''
        @ [newline] @ ''#shader fragment'' @ [newline] @ ''out vec4 c;'')
   \<and> file_lines (''#shader vertex'' @ [newline] @ ''in vec3 p;'' @ [newline]
        @ ''void main() {}'' @ [newline] @ ''#shader fragment'' @ [newline] @ ''out vec4 c;'')
     = ''#shader vertex'' # [''in vec3 p;'', ''void main() {}'']
         @ ''#shader fragment'' # [''out vec4 c;'']
   \<and> vertex_marker ''#shader vertex''
   \<and> list_all (\<lambda>l. \<not> has_marker l) [''in vec3 p;'', ''void main() {}'']
   \<and> fragment_marker ''#shader fragment''
   \<and> find_str ''#shader fragment'' ''vertex'' = npos
   \<and> list_all (\<lambda>l. \<not> has_marker l) [''out vec4 c;'']
   \<and> fst (ParseShader
        [''Basic.shader'' \<mapsto>
           ''#shader vertex'' @ [newline] @ ''in vec3 p;'' @ [newline] @ ''void main() {}''
             @ [newline] @ ''#shader fragment'' @ [newline] @ ''out vec4 c;'']
        ''Basic.shader'')
     = \<lparr>VertexSource = ''in vec3 p;'' @ [newline] @ ''void main() {}'' @ [newline],
        FragmentSource = ''out vec4 c;'' @ [newline]\<rparr>"
proof -
  let ?bytes = "''#shader vertex'' @ [newline] @ ''in vec3 p;'' @ [newline]
        @ ''void main() {}'' @ [newline] @ ''#shader fragment'' @ [newline] @ ''out vec4 c;''"
  let ?fs = "[''Basic.shader'' \<mapsto> ?bytes]"
  have h1: "?fs ''Basic.shader'' = Some ?bytes"
    by simp
  have h2: "file_lines ?bytes = ''#shader vertex'' # [''in vec3 p;'', ''void main() {}'']
         @ ''#shader fragment'' # [''out vec4 c;'']"
    by (simp add: newline_def)
  have h3: "vertex_marker ''#shader vertex''"
    by (simp add: vertex_marker_def has_marker_def)
  have h4: "list_all (\<lambda>l. \<not> has_marker l) [''in vec3 p;'', ''void main() {}'']"
    by (simp add: has_marker_def)
  have h5: "fragment_marker ''#shader fragment''"
    by (simp add: fragment_marker_def has_marker_def)
  have h6: "find_str ''#shader fragment'' ''vertex'' = npos"
    by simp
  have h7: "list_all (\<lambda>l. \<not> has_marker l) [''out vec4 c;'']"
    by (simp add: has_marker_def)
  have "fst (ParseShader ?fs ''Basic.shader'')
        = \<lparr>VertexSource = newline_terminated [''in vec3 p;'', ''void main() {}''],
           FragmentSource = newline_terminated [''out vec4 c;'']\<rparr>"
    by (rule ParseShader_two_sections
          [where fs = ?fs and filePath = "''Basic.shader''", OF h1 h2 h3 h4 h5 h6 h7])
  then have "fst (ParseShader ?fs ''Basic.shader'')
        = \<lparr>VertexSource = ''in vec3 p;'' @ [newline] @ ''void main() {}'' @ [newline],
           FragmentSource = ''out vec4 c;'' @ [newline]\<rparr>"
    by (simp add: newline_terminated_def)
  with h1 h2 h3 h4 h5 h6 h7 show ?thesis
    by blast
qed

text \<open>
  Claim C1 as stated fails in two ways. First file: the lines are
  \<open>#shader vertex\<close>, \<open>a\<close>, \<open>#shader fragment\<close>, \<open>b\<close>; the returned buffers are
  \<open>a\<close> and \<open>b\<close> each with a newline after it, one byte longer than the lines joined by
  newlines. Second file: the fragment-marker line is \<open>#shader fragment // after vertex\<close>;
  it contains \<open>vertex\<close>, the loop keeps the vertex stage, and line \<open>b\<close> lands in
  VertexSource while FragmentSource stays empty.
\<close>

theorem ParseShader_two_sections_counterexample:
  "vertex_marker ''#shader vertex'' \<and> \<not> has_marker ''a'' \<and> \<not> has_marker ''b''
   \<and> fragment_marker ''#shader fragment''
   \<and> file_lines (''#shader vertex'' @ [newline] @ ''a'' @ [newline]
          @ ''#shader fragment'' @ [newline] @ ''b'')
       = ''#shader vertex'' # [''a''] @ ''#shader fragment'' # [''b'']
   \<and> fst (ParseShader
          [''one.shader'' \<mapsto> ''#shader vertex'' @ [newline] @ ''a'' @ [newline]
             @ ''#shader fragment'' @ [newline] @ ''b'']
          ''one.shader'')
       = \<lparr>VertexSource = ''a'' @ [newline], FragmentSource = ''b'' @ [newline]\<rparr>
   \<and> fst (ParseShader
          [''one.shader'' \<mapsto> ''#shader vertex'' @ [newline] @ ''a'' @ [newline]
             @ ''#shader fragment'' @ [newline] @ ''b'']
          ''one.shader'')
       \<noteq> \<lparr>VertexSource = newline_joined [''a''], FragmentSource = newline_joined [''b'']\<rparr>
   \<and> fragment_marker ''#shader fragment // after vertex''
   \<and> file_lines (''#shader vertex'' @ [newline] @ ''a'' @ [newline]
          @ ''#shader fragment // after vertex'' @ [newline] @ ''b'')
       = ''#shader vertex'' # [''a''] @ ''#shader fragment // after vertex'' # [''b'']
   \<and> fst (ParseShader
          [''two.shader'' \<mapsto> ''#shader vertex'' @ [newline] @ ''a'' @ [newline]
             @ ''#shader fragment // after vertex'' @ [newline] @ ''b'']
          ''two.shader'')
       = \<lparr>VertexSource = ''a'' @ [newline] @ ''b'' @ [newline], FragmentSource = []\<rparr>
   \<and> fst (ParseShader
          [''two.shader'' \<mapsto> ''#shader vertex'' @ [newline] @ ''a'' @ [newline]
             @ ''#shader fragment // after vertex'' @ [newline] @ ''b'']
          ''two.shader'')
       \<noteq> \<lparr>VertexSource = newline_joined [''a''], FragmentSource = newline_joined [''b'']\<rparr>
   \<and> fst (ParseShader
          [''two.shader'' \<mapsto> ''#shader vertex'' @ [newline] @ ''a'' @ [newline]
             @ ''#shader fragment // after vertex'' @ [newline] @ ''b'']
          ''two.shader'')
       \<noteq> \<lparr>VertexSource = newline_terminated [''a''],
            FragmentSource = newline_terminated [''b'']\<rparr>"
proof -
  let ?one = "''#shader vertex'' @ [newline] @ ''a'' @ [newline]
          @ ''#shader fragment'' @ [newline] @ ''b''"
  let ?two = "''#shader vertex'' @ [newline] @ ''a'' @ [newline]
          @ ''#shader fragment // after vertex'' @ [newline] @ ''b''"
  have m: "vertex_marker ''#shader vertex''" "\<not> has_marker ''a''" "\<not> has_marker ''b''"
    "fragment_marker ''#shader fragment''"
    "fragment_marker ''#shader fragment // after vertex''"
    by (simp_all add: vertex_marker_def fragment_marker_def has_marker_def)
  have l1: "file_lines ?one = ''#shader vertex'' # [''a''] @ ''#shader fragment'' # [''b'']"
    by (simp add: newline_def)
  have l2: "file_lines ?two
      = ''#shader vertex'' # [''a''] @ ''#shader fragment // after vertex'' # [''b'']"
    by (simp add: newline_def)
  have o1: "[''one.shader'' \<mapsto> ?one] ''one.shader'' = Some ?one"
    by simp
  have o2: "[''two.shader'' \<mapsto> ?two] ''two.shader'' = Some ?two"
    by simp
  have f1: "foldl ParseShader_body (NONE, [[], []])
        (''#shader vertex'' # [''a''] @ ''#shader fragment'' # [''b''])
      = (FRAGMENT, [''a'' @ [newline], ''b'' @ [newline]])"
    by (simp add: ParseShader_body_def)
  have f2: "foldl ParseShader_body (NONE, [[], []])
        (''#shader vertex'' # [''a''] @ ''#shader fragment // after vertex'' # [''b''])
      = (VERTEX, [''a'' @ [newline] @ ''b'' @ [newline], []])"
    by (simp add: ParseShader_body_def)
  have r1: "fst (ParseShader [''one.shader'' \<mapsto> ?one] ''one.shader'')
      = \<lparr>VertexSource = ''a'' @ [newline], FragmentSource = ''b'' @ [newline]\<rparr>"
    unfolding ParseShader_open
        [where fs = "[''one.shader'' \<mapsto> ?one]" and filePath = "''one.shader''", OF o1] l1 f1
    by simp
  have r2: "fst (ParseShader [''two.shader'' \<mapsto> ?two] ''two.shader'')
      = \<lparr>VertexSource = ''a'' @ [newline] @ ''b'' @ [newline], FragmentSource = []\<rparr>"
    unfolding ParseShader_open
        [where fs = "[''two.shader'' \<mapsto> ?two]" and filePath = "''two.shader''", OF o2] l2 f2
    by simp
  have n1: "fst (ParseShader [''one.shader'' \<mapsto> ?one] ''one.shader'')
      \<noteq> \<lparr>VertexSource = newline_joined [''a''], FragmentSource = newline_joined [''b'']\<rparr>"
    unfolding r1 by simp
  have n2: "fst (ParseShader [''two.shader'' \<mapsto> ?two] ''two.shader'')
      \<noteq> \<lparr>VertexSource = newline_joined [''a''], FragmentSource = newline_joined [''b'']\<rparr>"
    unfolding r2 by simp
  have n3: "fst (ParseShader [''two.shader'' \<mapsto> ?two] ''two.shader'')
      \<noteq> \<lparr>VertexSource = newline_terminated [''a''],
           FragmentSource = newline_terminated [''b'']\<rparr>"
    unfolding r2 by (simp add: newline_terminated_def)
  from m l1 l2 r1 r2 n1 n2 n3 show ?thesis
    by blast
qed

text \<open>
  Claim C2. For a file none of whose lines contains the marker token, ParseShader returns
  an empty VertexSource and an empty FragmentSource.
\<close>

theorem ParseShader_no_markers:
  assumes "fs filePath = Some bytes"
    and "list_all (\<lambda>l. \<not> has_marker l) (file_lines bytes)"
  shows "fst (ParseShader fs filePath) = \<lparr>VertexSource = [], FragmentSource = []\<rparr>"
  using assms by (simp add: ParseShader_open run_text_NONE)

theorem ParseShader_no_markers_witness:
  "[''plain.glsl'' \<mapsto> ''void main() {}'' @ [newline] @ ''// vertex fragment'' @ [newline]]
     ''plain.glsl''
   = Some (''void main() {}'' @ [newline] @ ''// vertex fragment'' @ [newline])
   \<and> list_all (\<lambda>l. \<not> has_marker l)
        (file_lines (''void main() {}'' @ [newline] @ ''// vertex fragment'' @ [newline]))
   \<and> fst (ParseShader
        [''plain.glsl'' \<mapsto> ''void main() {}'' @ [newline] @ ''// vertex fragment'' @ [newline]]
        ''plain.glsl'')
     = \<lparr>VertexSource = [], FragmentSource = []\<rparr>"
proof -
  let ?bytes = "''void main() {}'' @ [newline] @ ''// vertex fragment'' @ [newline]"
  let ?fs = "[''plain.glsl'' \<mapsto> ?bytes]"
  have h1: "?fs ''plain.glsl'' = Some ?bytes"
    by simp
  have h2: "list_all (\<lambda>l. \<not> has_marker l) (file_lines ?bytes)"
    by (simp add: newline_def has_marker_def)
  from ParseShader_no_markers [where fs = ?fs and filePath = "''plain.glsl''", OF h1 h2]
    h1 h2 show ?thesis
    by blast
qed

text \<open>
  The lines that select the fragment stage are the fragment-marker lines that are not
  vertex-marker lines as well.
\<close>

lemma selects_fragment_iff:
  "selects_fragment l \<longleftrightarrow> fragment_marker l \<and> \<not> vertex_marker l"
  by (auto simp: selects_fragment_def fragment_marker_def vertex_marker_def)



text \<open>
  Claim C4. When the shader file cannot be opened, ParseShader writes a diagnostic to the
  error stream and still returns: the result is a ShaderProgramSource whose two buffers
  are empty. The model has no other outcome for an unreadable path: the failed stream
  makes the first \<open>getline\<close> fail, so the loop body never runs.
\<close>

theorem ParseShader_unreadable_file:
  assumes "fs filePath = None"
  shows "ParseShader fs filePath =
           (\<lparr>VertexSource = [], FragmentSource = []\<rparr>,
            ''Failed to open shader file: '' @ filePath @ [newline])"
  using assms
  by (simp add: ParseShader_def ifstream_open_def ParseShader_loop_not_open)

theorem ParseShader_unreadable_file_witness:
  "Map.empty ''Basic.shader'' = (None :: string option)
   \<and> ParseShader Map.empty ''Basic.shader'' =
       (\<lparr>VertexSource = [], FragmentSource = []\<rparr>,
        ''Failed to open shader file: Basic.shader'' @ [newline])"
proof -
  have h: "Map.empty ''Basic.shader'' = (None :: string option)"
    by simp
  from ParseShader_unreadable_file [where fs = Map.empty and filePath = "''Basic.shader''", OF h]
  show ?thesis
    by simp
qed

text \<open>
  Claim C9. A line that contains \<open>#shader\<close> and neither \<open>vertex\<close> nor \<open>fragment\<close> is
  consumed as a marker line: the loop body leaves the active stage and both buffers as
  they were, so the file gives the same result as the file without that line, and the
  lines after it go to the stage that was active before it.
\<close>

theorem ParseShader_bare_marker_line:
  assumes "find_str l ''#shader'' \<noteq> npos"
    and "find_str l ''vertex'' = npos"
    and "find_str l ''fragment'' = npos"
    and "fs filePath = Some bytes"
    and "file_lines bytes = pre @ l # post"
    and "fs filePath' = Some bytes'"
    and "file_lines bytes' = pre @ post"
  shows "ParseShader_body (type, ss) l = (type, ss)
       \<and> fst (ParseShader fs filePath) = fst (ParseShader fs filePath')"
proof -
  have b: "bare_marker l"
    using assms(1-3) by (simp add: bare_marker_def has_marker_def)
  then have "ParseShader_body (type, ss) l = (type, ss)"
    by (rule body_bare_marker)
  moreover have "foldl ParseShader_body (NONE, [[], []]) (file_lines bytes) =
      foldl ParseShader_body (NONE, [[], []]) (file_lines bytes')"
    unfolding assms(5,7) using b by (rule run_skips_bare_marker)
  then have "fst (ParseShader fs filePath) = fst (ParseShader fs filePath')"
    using assms(4,6) by (simp add: ParseShader_open)
  ultimately show ?thesis ..
qed

theorem ParseShader_bare_marker_line_witness:
  "find_str ''#shader geometry'' ''#shader'' \<noteq> npos
   \<and> find_str ''#shader geometry'' ''vertex'' = npos
   \<and> find_str ''#shader geometry'' ''fragment'' = npos
   \<and> [''a.shader'' \<mapsto> ''#shader vertex'' @ [newline] @ ''x'' @ [newline]
          @ ''#shader geometry'' @ [newline] @ ''y'',
      ''b.shader'' \<mapsto> ''#shader vertex'' @ [newline] @ ''x'' @ [newline] @ ''y'']
       ''a.shader''
     = Some (''#shader vertex'' @ [newline] @ ''x'' @ [newline]
          @ ''#shader geometry'' @ [newline] @ ''y'')
   \<and> file_lines (''#shader vertex'' @ [newline] @ ''x'' @ [newline]
          @ ''#shader geometry'' @ [newline] @ ''y'')
     = [''#shader vertex'', ''x''] @ ''#shader geometry'' # [''y'']
   \<and> [''a.shader'' \<mapsto> ''#shader vertex'' @ [newline] @ ''x'' @ [newline]
          @ ''#shader geometry'' @ [newline] @ ''y'',
      ''b.shader'' \<mapsto> ''#shader vertex'' @ [newline] @ ''x'' @ [newline] @ ''y'']
       ''b.shader''
     = Some (''#shader vertex'' @ [newline] @ ''x'' @ [newline] @ ''y'')
   \<and> file_lines (''#shader vertex'' @ [newline] @ ''x'' @ [newline] @ ''y'')
     = [''#shader vertex'', ''x''] @ [''y'']
   \<and> ParseShader_body (VERTEX, [''x'' @ [newline], []]) ''#shader geometry''
     = (VERTEX, [''x'' @ [newline], []])
   \<and> fst (ParseShader
        [''a.shader'' \<mapsto> ''#shader vertex'' @ [newline] @ ''x'' @ [newline]
            @ ''#shader geometry'' @ [newline] @ ''y'',
         ''b.shader'' \<mapsto> ''#shader vertex'' @ [newline] @ ''x'' @ [newline] @ ''y'']
        ''a.shader'')
     = fst (ParseShader
        [''a.shader'' \<mapsto> ''#shader vertex'' @ [newline] @ ''x'' @ [newline]
            @ ''#shader geometry'' @ [newline] @ ''y'',
         ''b.shader'' \<mapsto> ''#shader vertex'' @ [newline] @ ''x'' @ [newline] @ ''y'']
        ''b.shader'')"
proof -
  let ?a = "''#shader vertex'' @ [newline] @ ''x'' @ [newline]
          @ ''#shader geometry'' @ [newline] @ ''y''"
  let ?b = "''#shader vertex'' @ [newline] @ ''x'' @ [newline] @ ''y''"
  let ?fs = "[''a.shader'' \<mapsto> ?a, ''b.shader'' \<mapsto> ?b]"
  have h1: "find_str ''#shader geometry'' ''#shader'' \<noteq> npos"
    by simp
  have h2: "find_str ''#shader geometry'' ''vertex'' = npos"
    by simp
  have h3: "find_str ''#shader geometry'' ''fragment'' = npos"
    by simp
  have h4: "?fs ''a.shader'' = Some ?a"
    by simp
  have h5: "file_lines ?a = [''#shader vertex'', ''x''] @ ''#shader geometry'' # [''y'']"
    by (simp add: newline_def)
  have h6: "?fs ''b.shader'' = Some ?b"
    by simp
  have h7: "file_lines ?b = [''#shader vertex'', ''x''] @ [''y'']"
    by (simp add: newline_def)
  from ParseShader_bare_marker_line
         [where fs = ?fs and filePath = "''a.shader''" and filePath' = "''b.shader''"
            and type = VERTEX and ss = "[''x'' @ [newline], []]",
          OF h1 h2 h3 h4 h5 h6 h7]
    h1 h2 h3 h4 h5 h6 h7
  show ?thesis
    by blast
qed

text \<open>
  Claim C10. Every line before the first marker line is discarded, whatever it contains:
  a file whose lines are \<open>pre @ rest\<close>, with no marker token in any line of \<open>pre\<close>, gives
  the same two buffers as the file whose lines are \<open>rest\<close> alone, because nothing is
  accumulated while the active stage is still NONE.
\<close>

theorem ParseShader_leading_lines_discarded:
  assumes "fs filePath = Some bytes"
    and "file_lines bytes = pre @ rest"
    and "list_all (\<lambda>l. \<not> has_marker l) pre"
    and "fs filePath' = Some bytes'"
    and "file_lines bytes' = rest"
  shows "fst (ParseShader fs filePath) = fst (ParseShader fs filePath')"
proof -
  have "foldl ParseShader_body (NONE, [[], []]) (file_lines bytes) =
      foldl ParseShader_body (NONE, [[], []]) (file_lines bytes')"
    unfolding assms(2,5) using assms(3) by (rule run_skips_leading_text)
  then show ?thesis
    using assms(1,4) by (simp add: ParseShader_open)
qed

theorem ParseShader_leading_lines_discarded_witness:
  "[''a.shader'' \<mapsto> ''// vertex'' @ [newline] @ ''int x;'' @ [newline]
          @ ''#shader fragment'' @ [newline] @ ''y'',
    ''b.shader'' \<mapsto> ''#shader fragment'' @ [newline] @ ''y'']
       ''a.shader''
     = Some (''// vertex'' @ [newline] @ ''int x;'' @ [newline]
          @ ''#shader fragment'' @ [newline] @ ''y'')
   \<and> file_lines (''// vertex'' @ [newline] @ ''int x;'' @ [newline]
          @ ''#shader fragment'' @ [newline] @ ''y'')
     = [''// vertex'', ''int x;''] @ [''#shader fragment'', ''y'']
   \<and> list_all (\<lambda>l. \<not> has_marker l) [''// vertex'', ''int x;'']
   \<and> [''a.shader'' \<mapsto> ''// vertex'' @ [newline] @ ''int x;'' @ [newline]
          @ ''#shader fragment'' @ [newline] @ ''y'',
      ''b.shader'' \<mapsto> ''#shader fragment'' @ [newline] @ ''y'']
       ''b.shader''
     = Some (''#shader fragment'' @ [newline] @ ''y'')
   \<and> file_lines (''#shader fragment'' @ [newline] @ ''y'') = [''#shader fragment'', ''y'']
   \<and> fst (ParseShader
        [''a.shader'' \<mapsto> ''// vertex'' @ [newline] @ ''int x;'' @ [newline]
            @ ''#shader fragment'' @ [newline] @ ''y'',
         ''b.shader'' \<mapsto> ''#shader fragment'' @ [newline] @ ''y'']
        ''a.shader'')
     = fst (ParseShader
        [''a.shader'' \<mapsto> ''// vertex'' @ [newline] @ ''int x;'' @ [newline]
            @ ''#shader fragment'' @ [newline] @ ''y'',
         ''b.shader'' \<mapsto> ''#shader fragment'' @ [newline] @ ''y'']
        ''b.shader'')"
proof -
  let ?a = "''// vertex'' @ [newline] @ ''int x;'' @ [newline]
          @ ''#shader fragment'' @ [newline] @ ''y''"
  let ?b = "''#shader fragment'' @ [newline] @ ''y''"
  let ?fs = "[''a.shader'' \<mapsto> ?a, ''b.shader'' \<mapsto> ?b]"
  have h1: "?fs ''a.shader'' = Some ?a"
    by simp
  have h2: "file_lines ?a = [''// vertex'', ''int x;''] @ [''#shader fragment'', ''y'']"
    by (simp add: newline_def)
  have h3: "list_all (\<lambda>l. \<not> has_marker l) [''// vertex'', ''int x;'']"
    by (simp add: has_marker_def)
  have h4: "?fs ''b.shader'' = Some ?b"
    by simp
  have h5: "file_lines ?b = [''#shader fragment'', ''y'']"
    by (simp add: newline_def)
  from ParseShader_leading_lines_discarded
         [where fs = ?fs and filePath = "''a.shader''" and filePath' = "''b.shader''",
          OF h1 h2 h3 h4 h5]
    h1 h2 h3 h4 h5
  show ?thesis
    by blast
qed

section \<open>Properties of the start-up of main\<close>

text \<open>
  Claim C7. When GLFW initialisation, window creation or the loading of the GL functions
  fails, \<open>main\<close> writes a diagnostic to the error stream and returns \<open>-1\<close>, a non-zero
  exit status (255 in the eight bits a POSIX parent reads), from the failed check; it
  does not reach the render loop. This holds for the \<open>main\<close> of \<^verbatim>\<open>ex03_Shaders\<close> and
  for the \<open>main\<close> of \<^verbatim>\<open>HelloWorld_GL\<close>.
\<close>

theorem main_startup_failure:
  assumes "\<not> (glfwInit_ok p \<and> glfwCreateWindow_ok p \<and> gladLoadGLLoader_ok p)"
  shows "main_cerr (main_ex03_Shaders p) \<noteq> []
       \<and> ended (main_ex03_Shaders p) = Returned (-1)
       \<and> ended (main_ex03_Shaders p) \<noteq> Started
       \<and> main_cerr (main_HelloWorld_GL p) \<noteq> []
       \<and> ended (main_HelloWorld_GL p) = Returned (-1)
       \<and> ended (main_HelloWorld_GL p) \<noteq> Started
       \<and> (-1 :: int) \<noteq> 0 \<and> exit_status (-1) = 255"
  using assms
  by (auto simp: main_ex03_Shaders_def main_HelloWorld_GL_def exit_status_def)

theorem main_startup_failure_witness:
  "\<not> (glfwInit_ok \<lparr>glfwInit_ok = True, glfwCreateWindow_ok = False,
                     gladLoadGLLoader_ok = True\<rparr>
       \<and> glfwCreateWindow_ok \<lparr>glfwInit_ok = True, glfwCreateWindow_ok = False,
                     gladLoadGLLoader_ok = True\<rparr>
       \<and> gladLoadGLLoader_ok \<lparr>glfwInit_ok = True, glfwCreateWindow_ok = False,
                     gladLoadGLLoader_ok = True\<rparr>)
   \<and> main_cerr (main_ex03_Shaders \<lparr>glfwInit_ok = True, glfwCreateWindow_ok = False,
                     gladLoadGLLoader_ok = True\<rparr>) \<noteq> []
   \<and> ended (main_ex03_Shaders \<lparr>glfwInit_ok = True, glfwCreateWindow_ok = False,
                     gladLoadGLLoader_ok = True\<rparr>) = Returned (-1)
   \<and> main_cerr (main_HelloWorld_GL \<lparr>glfwInit_ok = True, glfwCreateWindow_ok = False,
                     gladLoadGLLoader_ok = True\<rparr>) \<noteq> []
   \<and> ended (main_HelloWorld_GL \<lparr>glfwInit_ok = True, glfwCreateWindow_ok = False,
                     gladLoadGLLoader_ok = True\<rparr>) = Returned (-1)"
proof -
  let ?p = "\<lparr>glfwInit_ok = True, glfwCreateWindow_ok = False, gladLoadGLLoader_ok = True\<rparr>"
  have h: "\<not> (glfwInit_ok ?p \<and> glfwCreateWindow_ok ?p \<and> gladLoadGLLoader_ok ?p)"
    by simp
  from main_startup_failure [OF h] h show ?thesis
    by blast
qed

section \<open>Properties of the shader wrapper\<close>

lemma uniform_index_None:
  "uniform_index name us = None \<longleftrightarrow> name \<notin> fst ` set us"
  by (induction us) (auto split: if_splits)

lemma uniform_index_less:
  "uniform_index name us = Some i \<Longrightarrow> i < length us \<and> fst (us ! i) = name"
  by (induction us arbitrary: i) (auto split: if_splits)

lemma absent_location:
  "program_objects w (ID sh) = Some po \<Longrightarrow> c_str name \<notin> fst ` set (active_uniforms po) \<Longrightarrow>
   glGetUniformLocation w (ID sh) (c_str name) = -1"
  by (simp add: glGetUniformLocation_def uniform_index_None [THEN iffD2])

lemma write_uniform_invalid:
  "write_uniform (-1) v w = w"
  by (simp add: write_uniform_def)

text \<open>
  The setters are not idle: on a name that resolves, with the program in use and a
  uniform of the matching kind, \<open>setVec4\<close> stores the value at the uniform's location.
\<close>

lemma setVec4_present_name:
  assumes "program_objects w (ID sh) = Some po"
    and "link_status po"
    and "current_program w = ID sh"
    and "uniform_index (c_str name) (active_uniforms po) = Some i"
    and "same_kind (snd (active_uniforms po ! i)) (U_vec4 x y z t)"
  shows "program_objects (setVec4 sh name (vec4 x y z t) w) (ID sh) =
           Some (po\<lparr>active_uniforms :=
                      (active_uniforms po)[i := (c_str name, U_vec4 x y z t)]\<rparr>)"
  using assms uniform_index_less [OF assms(4)]
  by (simp add: glGetUniformLocation_def glUniform4f_def write_uniform_def)

text \<open>
  Claim C5. For a linked program and a uniform name that is absent from the program's
  reflection data (the name as OpenGL reads it, up to its first zero byte), each of
  setFloat, setVec3, setMat4 and setVec4 returns and leaves the whole state as it was, so
  every uniform of every program keeps its value: the lookup gives the invalid location
  \<open>-1\<close>, and the write to \<open>-1\<close> is ignored.
\<close>

theorem uniform_setter_absent_name:
  assumes "program_objects w (ID sh) = Some po"
    and "link_status po"
    and "c_str name \<notin> fst ` set (active_uniforms po)"
  shows "glGetUniformLocation w (ID sh) (c_str name) = -1
       \<and> setFloat sh name f w = w \<and> setVec3 sh name v3 w = w
       \<and> setMat4 sh name m w = w \<and> setVec4 sh name v4 w = w"
proof -
  have loc: "glGetUniformLocation w (ID sh) (c_str name) = -1"
    using assms(1,3) by (rule absent_location)
  have "setFloat sh name f w = w"
    by (simp add: setFloat_def loc glUniform1f_def write_uniform_invalid)
  moreover have "setVec3 sh name v3 w = w"
    by (cases v3) (simp add: setVec3_def loc write_uniform_invalid)
  moreover have "setMat4 sh name m w = w"
    by (simp add: setMat4_def loc glUniformMatrix4fv_def write_uniform_invalid)
  moreover have "setVec4 sh name v4 w = w"
    by (cases v4) (simp add: loc glUniform4f_def write_uniform_invalid)
  ultimately show ?thesis
    using loc by blast
qed

theorem uniform_setter_absent_name_witness:
  "program_objects linked_world (ID \<lparr>ID = 3\<rparr>) =
     Some \<lparr>attached_shaders = [1, 2], link_status = True, program_info_log = [],
           active_uniforms = [(''uColor'', U_vec4 0 0 0 0)]\<rparr>
   \<and> link_status \<lparr>attached_shaders = [1, 2], link_status = True, program_info_log = [],
           active_uniforms = [(''uColor'', U_vec4 0 0 0 0)]\<rparr>
   \<and> c_str ''uOffset'' \<notin> fst ` set (active_uniforms
          \<lparr>attached_shaders = [1, 2], link_status = True, program_info_log = [],
           active_uniforms = [(''uColor'', U_vec4 0 0 0 0)]\<rparr>)
   \<and> glGetUniformLocation linked_world (ID \<lparr>ID = 3\<rparr>) (c_str ''uOffset'') = -1
   \<and> setFloat \<lparr>ID = 3\<rparr> ''uOffset'' 0x3F800000 linked_world = linked_world
   \<and> setVec3 \<lparr>ID = 3\<rparr> ''uOffset'' (vec3 0 0x3F000000 0) linked_world = linked_world
   \<and> setMat4 \<lparr>ID = 3\<rparr> ''uOffset''
        (mat4 (vec4 0x3F800000 0 0 0) (vec4 0 0x3F800000 0 0)
              (vec4 0 0 0x3F800000 0) (vec4 0 0 0 0x3F800000)) linked_world = linked_world
   \<and> setVec4 \<lparr>ID = 3\<rparr> ''uOffset'' (vec4 0x3F800000 0 0x3F800000 0x3F800000) linked_world
       = linked_world"
proof -
  let ?po = "\<lparr>attached_shaders = [1, 2], link_status = True, program_info_log = [],
           active_uniforms = [(''uColor'', U_vec4 0 0 0 0)]\<rparr>"
  have h1: "program_objects linked_world (ID \<lparr>ID = 3\<rparr>) = Some ?po"
    by (simp add: linked_world_def)
  have h2: "link_status ?po"
    by simp
  have h3: "c_str ''uOffset'' \<notin> fst ` set (active_uniforms ?po)"
    by (simp add: c_str_def)
  from uniform_setter_absent_name [OF h1 h2 h3] h1 h2 h3 show ?thesis
    by blast
qed






















text \<open>
  Claim C8. For every source text that the driver's compiler rejects, the compile step
  leaves the stage object in place with its compile status false, and writes to the
  error stream a diagnostic that is not empty and carries the driver's log. CompileShader
  (ex02) creates the stage object and returns its name to the caller; checkCompileErrors
  (ex03), run on the stage object after \<open>glCompileShader\<close>, returns with the diagnostic
  written. Neither has another outcome on a rejected source.
\<close>

theorem compile_failure_reported:
  "(\<not> fst (glsl_compile drv shaderType (c_str shaderSource)) \<longrightarrow>
      (\<exists>w'. CompileShader drv shaderSource shaderType w = Some (Suc (names_used w), w')
         \<and> stage_kind w' (Suc (names_used w)) = Some shaderType
         \<and> glGetShaderiv w' (Suc (names_used w)) GL_COMPILE_STATUS = Some GL_FALSE
         \<and> cerr w' = cerr w @ ''Shader error:'' @ [newline]
              @ c_str (take 511 (snd (glsl_compile drv shaderType (c_str shaderSource))))
              @ [newline]
         \<and> cerr w' \<noteq> cerr w))
 \<and> (shader_objects u s = Some so
      \<and> \<not> fst (glsl_compile drv (shader_type so) (shader_source so))
      \<and> type \<noteq> ''PROGRAM'' \<longrightarrow>
      (\<exists>u'. checkCompileErrors s type (glCompileShader drv s u) = Some u'
         \<and> stage_kind u' s = Some (shader_type so)
         \<and> glGetShaderiv u' s GL_COMPILE_STATUS = Some GL_FALSE
         \<and> cerr u' = cerr u @ ''SHADER COMPILE ERROR ['' @ type @ '']:'' @ [newline]
              @ c_str (take 1023 (snd (glsl_compile drv (shader_type so) (shader_source so))))
              @ [newline]
         \<and> cerr u' \<noteq> cerr u))"
proof (intro conjI impI)
  assume rej: "\<not> fst (glsl_compile drv shaderType (c_str shaderSource))"
  then obtain log where cmp: "glsl_compile drv shaderType (c_str shaderSource) = (False, log)"
    by (cases "glsl_compile drv shaderType (c_str shaderSource)") auto
  show "\<exists>w'. CompileShader drv shaderSource shaderType w = Some (Suc (names_used w), w')
         \<and> stage_kind w' (Suc (names_used w)) = Some shaderType
         \<and> glGetShaderiv w' (Suc (names_used w)) GL_COMPILE_STATUS = Some GL_FALSE
         \<and> cerr w' = cerr w @ ''Shader error:'' @ [newline]
              @ c_str (take 511 (snd (glsl_compile drv shaderType (c_str shaderSource))))
              @ [newline]
         \<and> cerr w' \<noteq> cerr w"
    by (simp add: CompileShader_def glCreateShader_def glShaderSource_def glCompileShader_def
          glGetShaderiv_def glGetShaderInfoLog_def stage_kind_def cmp Let_def)
next
  assume a: "shader_objects u s = Some so
      \<and> \<not> fst (glsl_compile drv (shader_type so) (shader_source so))
      \<and> type \<noteq> ''PROGRAM''"
  then obtain log where
    cmp: "glsl_compile drv (shader_type so) (shader_source so) = (False, log)"
    by (cases "glsl_compile drv (shader_type so) (shader_source so)") auto
  from a show "\<exists>u'. checkCompileErrors s type (glCompileShader drv s u) = Some u'
         \<and> stage_kind u' s = Some (shader_type so)
         \<and> glGetShaderiv u' s GL_COMPILE_STATUS = Some GL_FALSE
         \<and> cerr u' = cerr u @ ''SHADER COMPILE ERROR ['' @ type @ '']:'' @ [newline]
              @ c_str (take 1023 (snd (glsl_compile drv (shader_type so) (shader_source so))))
              @ [newline]
         \<and> cerr u' \<noteq> cerr u"
    by (simp add: checkCompileErrors_def glCompileShader_def
          glGetShaderiv_def glGetShaderInfoLog_def stage_kind_def cmp)
qed

theorem compile_failure_reported_witness:
  "\<not> fst (glsl_compile example_driver GL_VERTEX_SHADER (c_str ''int x = ;''))
   \<and> (\<exists>w'. CompileShader example_driver ''int x = ;'' GL_VERTEX_SHADER empty_world
              = Some (1, w')
         \<and> stage_kind w' 1 = Some GL_VERTEX_SHADER
         \<and> glGetShaderiv w' 1 GL_COMPILE_STATUS = Some GL_FALSE
         \<and> cerr w' = ''Shader error:'' @ [newline] @ ''ERROR: 0:1: syntax error''
              @ [newline])
   \<and> shader_objects stage_world 1 =
       Some \<lparr>shader_type = GL_FRAGMENT_SHADER, shader_source = ''int x = ;'',
             compile_status = False, shader_info_log = [], delete_status = False\<rparr>
   \<and> \<not> fst (glsl_compile example_driver GL_FRAGMENT_SHADER ''int x = ;'')
   \<and> ''FRAGMENT'' \<noteq> ''PROGRAM''
   \<and> (\<exists>v'. checkCompileErrors 1 ''FRAGMENT'' (glCompileShader example_driver 1 stage_world)
              = Some v'
         \<and> stage_kind v' 1 = Some GL_FRAGMENT_SHADER
         \<and> glGetShaderiv v' 1 GL_COMPILE_STATUS = Some GL_FALSE
         \<and> cerr v' = ''SHADER COMPILE ERROR [FRAGMENT]:'' @ [newline]
              @ ''ERROR: 0:1: syntax error'' @ [newline])"
proof -
  let ?so = "\<lparr>shader_type = GL_FRAGMENT_SHADER, shader_source = ''int x = ;'',
             compile_status = False, shader_info_log = [], delete_status = False\<rparr>"
  have h1: "\<not> fst (glsl_compile example_driver GL_VERTEX_SHADER (c_str ''int x = ;''))"
    by (simp add: example_driver_def c_str_def)
  have h2: "shader_objects stage_world 1 = Some ?so
      \<and> \<not> fst (glsl_compile example_driver (shader_type ?so) (shader_source ?so))
      \<and> ''FRAGMENT'' \<noteq> ''PROGRAM''"
    by (simp add: stage_world_def example_driver_def)
  have l1: "c_str (take 511 (snd (glsl_compile example_driver GL_VERTEX_SHADER
               (c_str ''int x = ;'')))) = ''ERROR: 0:1: syntax error''"
    by (simp add: example_driver_def c_str_def)
  have l2: "c_str (take 1023 (snd (glsl_compile example_driver (shader_type ?so)
               (shader_source ?so)))) = ''ERROR: 0:1: syntax error''"
    by (simp add: example_driver_def c_str_def)
  have e: "names_used empty_world = 0" "cerr empty_world = []" "cerr stage_world = []"
    by (simp_all add: empty_world_def stage_world_def)
  note t = compile_failure_reported
      [of example_driver GL_VERTEX_SHADER "''int x = ;''" empty_world stage_world 1 ?so
          "''FRAGMENT''"]
  from t h1 have
    "\<exists>w'. CompileShader example_driver ''int x = ;'' GL_VERTEX_SHADER empty_world
              = Some (1, w')
         \<and> stage_kind w' 1 = Some GL_VERTEX_SHADER
         \<and> glGetShaderiv w' 1 GL_COMPILE_STATUS = Some GL_FALSE
         \<and> cerr w' = ''Shader error:'' @ [newline] @ ''ERROR: 0:1: syntax error''
              @ [newline]"
    unfolding l1 e by auto
  moreover from t h2 have
    "\<exists>v'. checkCompileErrors 1 ''FRAGMENT'' (glCompileShader example_driver 1 stage_world)
              = Some v'
         \<and> stage_kind v' 1 = Some GL_FRAGMENT_SHADER
         \<and> glGetShaderiv v' 1 GL_COMPILE_STATUS = Some GL_FALSE
         \<and> cerr v' = ''SHADER COMPILE ERROR [FRAGMENT]:'' @ [newline]
              @ ''ERROR: 0:1: syntax error'' @ [newline]"
    unfolding l2 e by auto
  ultimately show ?thesis
    using h1 h2 by simp
qed

end
